theory Spec2Isabelle
  imports Complex_Main
begin

section \<open>Radial combination and radial selection of the HFR processing functions\<close>

text \<open>
  This development embeds the two processing functions of \<^verbatim>\<open>src/funcs.py\<close>,
  \<^verbatim>\<open>performRadialCombination\<close> and \<^verbatim>\<open>selectRadials\<close>, and proves properties of them.

  Conventions of the embedding.
  \<^item> A pandas DataFrame is the list of its rows, a row is a record of the columns the code reads.
  \<^item> A Python exception is a value of type \<open>error\<close>; a fallible computation returns
    \<open>error + 'a\<close>, with \<open>Inl\<close> for the exception.
  \<^item> Functions imported from other modules (\<^verbatim>\<open>calc\<close>, \<^verbatim>\<open>totals\<close>, \<^verbatim>\<open>common\<close>, \<^verbatim>\<open>radials\<close>,
    \<^verbatim>\<open>os\<close>, \<^verbatim>\<open>glob\<close>, \<^verbatim>\<open>datetime\<close>) are parameters, collected in a record; each may fail
    with a message, which the caller sees as \<open>LibraryError\<close>.
  \<^item> Python floats are idealised as reals: products and quotients are the exact ones.
\<close>

subsection \<open>Exceptions\<close>

datatype error =
    IndexError
  | UnboundLocalError string
  | NameError string
  | AttributeError string
  | LibraryError string

text \<open>The result of a call into an imported module, seen from the calling function.\<close>

definition lib_call :: "string + 'a \<Rightarrow> error + 'a" where
  "lib_call r = (case r of Inl msg \<Rightarrow> Inl (LibraryError msg) | Inr v \<Rightarrow> Inr v)"

text \<open>\<^verbatim>\<open>df.iloc[0]\<close>: the first row, IndexError on an empty frame.\<close>

definition iloc0 :: "'a list \<Rightarrow> error + 'a" where
  "iloc0 df = (case df of [] \<Rightarrow> Inl IndexError | r # _ \<Rightarrow> Inr r)"

text \<open>\<^verbatim>\<open>Series.unique()\<close>: the distinct values in order of first appearance.\<close>

fun unique :: "'a list \<Rightarrow> 'a list" where
  "unique [] = []"
| "unique (x # xs) = x # unique (filter (\<lambda>y. y \<noteq> x) xs)"

subsection \<open>Frames\<close>

text \<open>
  The frames share column names: \<^verbatim>\<open>network_id\<close> is a column of every frame, \<^verbatim>\<open>station_id\<close>
  of the station frame and of the radial frames, and the frame \<^verbatim>\<open>combRad\<close> has the columns of
  the frame \<^verbatim>\<open>selectRadials\<close> returns and the column \<^verbatim>\<open>Radial\<close>. The rows are therefore
  records that extend one another, so that a column is one selector on every frame that has it.
\<close>

record network_key =
  network_id :: string

record station_key = network_key +
  station_id :: string

text \<open>A row of \<^verbatim>\<open>networkData\<close>.\<close>

record network_row = network_key +
  radial_combination :: int
  geospatial_lon_min :: real
  geospatial_lon_max :: real
  geospatial_lat_min :: real
  geospatial_lat_max :: real
  grid_resolution :: real
  combination_search_radius :: real

text \<open>
  A row of \<^verbatim>\<open>stationData\<close>. The folder path and the manufacturer come from the database
  and may be missing (\<^verbatim>\<open>None\<close>).
\<close>

record station_row = station_key +
  radial_input_folder_path :: "string option"
  manufacturer :: "string option"

text \<open>A row of \<^verbatim>\<open>radialsToBeProcessed\<close>, the frame \<^verbatim>\<open>selectRadials\<close> returns.\<close>

record selected_row = station_key +
  filename :: string
  filepath :: string
  timestamp :: string
  datetime :: string
  reception_date :: string
  filesize :: real
  extension :: string
  NRT_processed_flag :: int
  NRT_processed_flag_integrated_network :: int
  NRT_combined_flag :: int

text \<open>The two columns of \<^verbatim>\<open>Radial.data\<close> that \<^verbatim>\<open>performRadialCombination\<close> touches.\<close>

record radial =
  VELO :: "real list"
  HCSS :: "real list"

text \<open>A row of \<^verbatim>\<open>combRad\<close>.\<close>

record radial_row = selected_row +
  Radial :: radial

text \<open>
  A \<^verbatim>\<open>Total\<close> object: the two attributes the function assigns, and everything else
  (the gridded data and its metadata) as \<open>payload\<close>.
\<close>

record 'p Total =
  payload :: 'p
  is_combined :: bool
  is_wera :: bool

text \<open>
  The imported functions \<^verbatim>\<open>performRadialCombination\<close> calls. \<open>'g\<close> is the grid type,
  \<open>'t\<close> the parsed timestamp, \<open>'w\<close> the warning value returned by \<^verbatim>\<open>combineRadials\<close>.
\<close>

record ('g, 'p, 't, 'w) combination_lib =
  createLonLatGridFromBB :: "real \<Rightarrow> real \<Rightarrow> real \<Rightarrow> real \<Rightarrow> real \<Rightarrow> string + 'g"
  createLonLatGridFromBBwera :: "real \<Rightarrow> real \<Rightarrow> real \<Rightarrow> real \<Rightarrow> real \<Rightarrow> string + 'g"
  strptime :: "string \<Rightarrow> string + 't"
  combineRadials :: "radial_row list \<Rightarrow> 'g \<Rightarrow> real \<Rightarrow> real \<Rightarrow> 't \<Rightarrow> string + ('p Total \<times> 'w)"
  addBoundingBoxMetadata ::
    "'p Total \<Rightarrow> real \<Rightarrow> real \<Rightarrow> real \<Rightarrow> real \<Rightarrow> real \<Rightarrow> string + 'p Total"

subsection \<open>\<^verbatim>\<open>performRadialCombination\<close>, step by step\<close>

text \<open>
  Line 152, the check whether the radials were already combined:
  \<^verbatim>\<open>((id != 'HFR-WesternItaly') and (0 in combRad['NRT_combined_flag'].values)) or
  ((id == 'HFR-WesternItaly') and (0 in combRad['NRT_processed_flag_integrated_network'].values))\<close>
\<close>

definition notYetCombined :: "radial_row list \<Rightarrow> network_row \<Rightarrow> bool" where
  "notYetCombined combRad net \<longleftrightarrow>
     (network_id net \<noteq> ''HFR-WesternItaly'' \<and> 0 \<in> set (map NRT_combined_flag combRad)) \<or>
     (network_id net = ''HFR-WesternItaly'' \<and>
        0 \<in> set (map NRT_processed_flag_integrated_network combRad))"

text \<open>
  Lines 163-170, the geographical grid. \<^verbatim>\<open>gridGS\<close> stays unbound (\<open>None\<close>) when the only
  extension is neither \<^verbatim>\<open>.ruv\<close> nor \<^verbatim>\<open>.crad_ascii\<close>.
\<close>

definition createGrid ::
  "('g, 'p, 't, 'w) combination_lib \<Rightarrow> string list \<Rightarrow> real \<Rightarrow> real \<Rightarrow> real \<Rightarrow> real \<Rightarrow> real
     \<Rightarrow> error + 'g option" where
  "createGrid lib exts lonMin lonMax latMin latMax gridResolution =
     (if length exts = 1 then
        (if hd exts = ''.ruv'' then
           map_sum id Some (lib_call (createLonLatGridFromBB lib lonMin lonMax latMin latMax gridResolution))
         else if hd exts = ''.crad_ascii'' then
           map_sum id Some (lib_call (createLonLatGridFromBBwera lib lonMin lonMax latMin latMax gridResolution))
         else Inr None)
      else
        map_sum id Some (lib_call (createLonLatGridFromBB lib lonMin lonMax latMin latMax gridResolution)))"

text \<open>
  Lines 173-176, the scaling of WERA radials combined with CODAR ones:
  \<^verbatim>\<open>if (len(exts) > 1):
      for idx in combRadcombRad.loc[combRad['extension'] == '.crad_ascii'].loc[:]['Radial'].index:
          combRad.loc[idx]['Radial'].data.VELO *= 100
          combRad.loc[idx]['Radial'].data.HCSS *= 10000\<close>
  The loop body multiplies the two columns of the Radial object of the row at \<open>idx\<close>; the
  index labels are modelled as positions.
\<close>

definition scaleRadial :: "radial \<Rightarrow> radial" where
  "scaleRadial R = R\<lparr>VELO := map (\<lambda>v. v * 100) (VELO R), HCSS := map (\<lambda>h. h * 10000) (HCSS R)\<rparr>"

definition scaleRow :: "nat \<Rightarrow> radial_row list \<Rightarrow> radial_row list" where
  "scaleRow idx combRad =
     (if idx < length combRad
      then combRad[idx := (combRad ! idx)\<lparr>Radial := scaleRadial (Radial (combRad ! idx))\<rparr>]
      else combRad)"

text \<open>
  The frames a name denotes inside the function. The only frame of radial rows in scope is
  the parameter \<^verbatim>\<open>combRad\<close>; any other name, \<^verbatim>\<open>combRadcombRad\<close> among them, is bound neither
  locally nor in the module nor as a builtin, and reading it raises NameError.
\<close>

definition frameNamed :: "radial_row list \<Rightarrow> string \<Rightarrow> error + radial_row list" where
  "frameNamed combRad name = (if name = ''combRad'' then Inr combRad else Inl (NameError name))"

text \<open>
  The step: the iterable of the \<^verbatim>\<open>for\<close> is evaluated first, and an exception there leaves the
  frame untouched. The result is the frame after the step.
\<close>

definition scaleWeraRadials :: "string list \<Rightarrow> radial_row list \<Rightarrow> error + radial_row list" where
  "scaleWeraRadials exts combRad =
     (if length exts > 1 then
        (case frameNamed combRad ''combRadcombRad'' of
           Inl e \<Rightarrow> Inl e
         | Inr frame \<Rightarrow>
             Inr (fold scaleRow
                    (filter (\<lambda>idx. idx < length combRad \<and> extension (combRad ! idx) = ''.crad_ascii'')
                       [0..<length frame])
                    combRad))
      else Inr combRad)"

text \<open>Lines 190-200, the attributes set on the Total.\<close>

definition setTotalFlags :: "string list \<Rightarrow> 'p Total \<Rightarrow> 'p Total" where
  "setTotalFlags exts T =
     (let T = T\<lparr>is_combined := True\<rparr> in
      if length exts = 1 then
        (if hd exts = ''.ruv'' then T\<lparr>is_wera := False\<rparr>
         else if hd exts = ''.crad_ascii'' then T\<lparr>is_wera := True\<rparr>
         else T)
      else T\<lparr>is_wera := False\<rparr>)"

text \<open>
  Lines 153-200, the body of the two nested \<^verbatim>\<open>if\<close>s. It returns the value bound to the
  local \<^verbatim>\<open>T\<close> or the exception raised, together with the frame \<^verbatim>\<open>combRad\<close> as it is when
  the body ends (the caller's frame is the same object).
\<close>

definition combineBody ::
  "('g, 'p, 't, 'w) combination_lib \<Rightarrow> radial_row list \<Rightarrow> network_row
     \<Rightarrow> (error + 'p Total) \<times> radial_row list" where
  "combineBody lib combRad net =
     (let lonMin = geospatial_lon_min net;
          lonMax = geospatial_lon_max net;
          latMin = geospatial_lat_min net;
          latMax = geospatial_lat_max net;
          gridResolution = grid_resolution net * 1000;
          exts = unique (map extension combRad)
      in case createGrid lib exts lonMin lonMax latMin latMax gridResolution of
           Inl e \<Rightarrow> (Inl e, combRad)
         | Inr gridGS \<Rightarrow>
        (case scaleWeraRadials exts combRad of
           Inl e \<Rightarrow> (Inl e, combRad)
         | Inr combRad \<Rightarrow>
        (let searchRadius = combination_search_radius net * 1000
         in case iloc0 combRad of
           Inl e \<Rightarrow> (Inl e, combRad)
         | Inr row0 \<Rightarrow>
        (case lib_call (strptime lib (datetime row0)) of
           Inl e \<Rightarrow> (Inl e, combRad)
         | Inr timeStamp \<Rightarrow>
        (case gridGS of
           None \<Rightarrow> (Inl (UnboundLocalError ''gridGS''), combRad)
         | Some grid \<Rightarrow>
        (case lib_call (combineRadials lib combRad grid searchRadius gridResolution timeStamp) of
           Inl e \<Rightarrow> (Inl e, combRad)
         | Inr (T, warn) \<Rightarrow>
        (case lib_call (addBoundingBoxMetadata lib T lonMin lonMax latMin latMax (gridResolution / 1000)) of
           Inl e \<Rightarrow> (Inl e, combRad)
         | Inr T \<Rightarrow> (Inr (setTotalFlags exts T), combRad))))))))"

text \<open>
  The function. \<^verbatim>\<open>combTot\<close>, created empty at line 147, is never used again; the function
  ends with \<^verbatim>\<open>return T\<close>, and \<^verbatim>\<open>T\<close> is bound only inside the two \<^verbatim>\<open>if\<close>s. The second
  component is the frame \<^verbatim>\<open>combRad\<close> after the call.
\<close>

definition performRadialCombination ::
  "('g, 'p, 't, 'w) combination_lib \<Rightarrow> radial_row list \<Rightarrow> network_row list
     \<Rightarrow> (error + 'p Total) \<times> radial_row list" where
  "performRadialCombination lib combRad networkData =
     (case iloc0 networkData of
        Inl e \<Rightarrow> (Inl e, combRad)
      | Inr net \<Rightarrow>
          if radial_combination net = 1 then
            (if notYetCombined combRad net then combineBody lib combRad net
             else (Inl (UnboundLocalError ''T''), combRad))
          else (Inl (UnboundLocalError ''T''), combRad))"

subsection \<open>A concrete library and concrete frames\<close>

text \<open>
  A library that records in the grid and in the payload of the Total the arguments it
  was called with; rows and network descriptors to run the function on.
\<close>

type_synonym demo_grid = "string \<times> real list"
type_synonym demo_payload = "demo_grid \<times> real list \<times> real list"

definition demo_lib :: "(demo_grid, demo_payload, string, unit) combination_lib" where
  "demo_lib = \<lparr>
     createLonLatGridFromBB = (\<lambda>lonMin lonMax latMin latMax res. Inr (''BB'', [lonMin, lonMax, latMin, latMax, res])),
     createLonLatGridFromBBwera = (\<lambda>lonMin lonMax latMin latMax res. Inr (''BBwera'', [lonMin, lonMax, latMin, latMax, res])),
     strptime = (\<lambda>s. Inr s),
     combineRadials = (\<lambda>combRad grid searchRadius res ts.
        Inr (\<lparr>payload = (grid, [searchRadius, res], []), is_combined = False, is_wera = False\<rparr>, ())),
     addBoundingBoxMetadata = (\<lambda>T lonMin lonMax latMin latMax res.
        Inr (T\<lparr>payload := (fst (payload T), fst (snd (payload T)), [lonMin, lonMax, latMin, latMax, res])\<rparr>))\<rparr>"

definition demo_row :: "string \<Rightarrow> int \<Rightarrow> int \<Rightarrow> radial_row" where
  "demo_row ext integrated combined =
     \<lparr>network_id = ''HFR-TirLig'', station_id = ''VIAR'',
      filename = ''radial'' @ ext, filepath = ''/data/HFR-TirLig/VIAR'',
      timestamp = ''2024 01 01 00 00 00'', datetime = ''2024-01-01 00:00:00'',
      reception_date = ''2024-01-01 01:00:00'', filesize = 100, extension = ext,
      NRT_processed_flag = 0, NRT_processed_flag_integrated_network = integrated,
      NRT_combined_flag = combined, Radial = \<lparr>VELO = [2], HCSS = [3]\<rparr>\<rparr>"

definition demo_net :: "string \<Rightarrow> int \<Rightarrow> network_row" where
  "demo_net nid enabled =
     \<lparr>network_id = nid, radial_combination = enabled,
      geospatial_lon_min = 8, geospatial_lon_max = 10,
      geospatial_lat_min = 43, geospatial_lat_max = 44,
      grid_resolution = 2, combination_search_radius = 6\<rparr>"


subsection \<open>Statements with state and exceptions\<close>

text \<open>
  A statement runs in a state and ends normally or with an exception, in the state it has
  reached. \<open>forEach\<close> is the \<^verbatim>\<open>for\<close> loop: an exception of the body ends the loop.
  \<open>tryExcept\<close> is \<^verbatim>\<open>try: body except Exception as err: handler\<close>; every value of type
  \<open>error\<close> is an instance of \<^verbatim>\<open>Exception\<close>.
\<close>

type_synonym 's stmt = "'s \<Rightarrow> (error + unit) \<times> 's"

fun forEach :: "('a \<Rightarrow> 's stmt) \<Rightarrow> 'a list \<Rightarrow> 's stmt" where
  "forEach body [] s = (Inr (), s)"
| "forEach body (x # xs) s =
     (case body x s of
        (Inl e, s') \<Rightarrow> (Inl e, s')
      | (Inr u, s') \<Rightarrow> forEach body xs s')"

definition tryExcept :: "'s stmt \<Rightarrow> ('s \<Rightarrow> 's) \<Rightarrow> 's stmt" where
  "tryExcept body handler s =
     (case body s of
        (Inl e, s') \<Rightarrow> (Inr (), handler s')
      | (Inr u, s') \<Rightarrow> (Inr (), s'))"

text \<open>\<^verbatim>\<open>df.iloc[i]\<close> for a non-negative position.\<close>

definition iloc :: "'a list \<Rightarrow> nat \<Rightarrow> error + 'a" where
  "iloc df i = (if i < length df then Inr (df ! i) else Inl IndexError)"

subsection \<open>String methods\<close>

text \<open>
  \<^verbatim>\<open>str.strip()\<close>, \<^verbatim>\<open>str.lower()\<close> and the substring test \<^verbatim>\<open>sub in s\<close>, on ASCII strings.
\<close>

definition isspace :: "char \<Rightarrow> bool" where
  "isspace c \<longleftrightarrow>
     c \<in> set [CHR '' '', CHR 0x09, CHR 0x0A, CHR 0x0B, CHR 0x0C, CHR 0x0D,
              CHR 0x1C, CHR 0x1D, CHR 0x1E, CHR 0x1F]"

definition strip :: "string \<Rightarrow> string" where
  "strip s = rev (dropWhile isspace (rev (dropWhile isspace s)))"

definition lower_char :: "char \<Rightarrow> char" where
  "lower_char c =
     (case map_of (zip ''ABCDEFGHIJKLMNOPQRSTUVWXYZ'' ''abcdefghijklmnopqrstuvwxyz'') c of
        Some l \<Rightarrow> l
      | None \<Rightarrow> c)"

definition lower :: "string \<Rightarrow> string" where
  "lower s = map lower_char s"

fun contains :: "string \<Rightarrow> string \<Rightarrow> bool" where
  "contains sub [] = (sub = [])"
| "contains sub (c # cs) = (take (length sub) (c # cs) = sub \<or> contains sub cs)"

subsection \<open>\<^verbatim>\<open>selectRadials\<close>\<close>

text \<open>
  The imported functions \<^verbatim>\<open>selectRadials\<close> calls: \<^verbatim>\<open>os.path\<close>, \<^verbatim>\<open>glob.glob\<close>, the
  constructor of \<^verbatim>\<open>Radial\<close> and \<^verbatim>\<open>strftime\<close> on the time of a radial (\<open>'r\<close> is the type
  of Radial objects). \<open>utcnow st j\<close> is the clock reading, formatted, taken while the file at
  position \<open>j\<close> of the station at position \<open>st\<close> is processed.
\<close>

record 'r selection_lib =
  isdir :: "string \<Rightarrow> bool"
  join :: "string \<Rightarrow> string \<Rightarrow> string"
  glob :: "string \<Rightarrow> string + string list"
  dirname :: "string \<Rightarrow> string"
  basename :: "string \<Rightarrow> string"
  splitext :: "string \<Rightarrow> string \<times> string"
  Radial_init :: "string \<Rightarrow> string + 'r"
  time_strftime :: "'r \<Rightarrow> string \<Rightarrow> string + string"
  getsize :: "string \<Rightarrow> string + nat"
  utcnow :: "nat \<Rightarrow> nat \<Rightarrow> string"

text \<open>
  The local variables that live across iterations: the output frame, the error flag, and
  \<^verbatim>\<open>fileTypeWildcard\<close>, which is unbound (\<open>None\<close>) until a station's manufacturer binds it and
  keeps its value afterwards. Every other local is assigned in an iteration before it is read.
\<close>

record selection_state =
  radialsToBeProcessed :: "selected_row list"
  fileTypeWildcard :: "string option"
  sRerr :: bool

text \<open>Lines 265-288: the one-row frame \<^verbatim>\<open>dfRadial\<close> of an input file, or the exception raised.\<close>

definition dfRadial ::
  "'r selection_lib \<Rightarrow> string \<Rightarrow> string \<Rightarrow> nat \<Rightarrow> nat \<Rightarrow> string \<Rightarrow> error + selected_row" where
  "dfRadial lib networkID stationID st j inputFile =
     (let filePath = dirname lib inputFile;
          fileName = basename lib inputFile;
          fileExt = snd (splitext lib inputFile)
      in case lib_call (Radial_init lib inputFile) of
           Inl e \<Rightarrow> Inl e
         | Inr radial \<Rightarrow>
        (case lib_call (time_strftime lib radial ''%Y %m %d %H %M %S'') of
           Inl e \<Rightarrow> Inl e
         | Inr timeStamp \<Rightarrow>
        (case lib_call (time_strftime lib radial ''%Y-%m-%d %H:%M:%S'') of
           Inl e \<Rightarrow> Inl e
         | Inr dateTime \<Rightarrow>
        (case lib_call (getsize lib inputFile) of
           Inl e \<Rightarrow> Inl e
         | Inr bytes \<Rightarrow>
        (let fileSize = real bytes / 1024
         in Inr \<lparr>network_id = networkID, station_id = stationID,
                 filename = fileName, filepath = filePath,
                 timestamp = timeStamp, datetime = dateTime,
                 reception_date = utcnow lib st j,
                 filesize = fileSize, extension = fileExt,
                 NRT_processed_flag = 0, NRT_processed_flag_integrated_network = 0,
                 NRT_combined_flag = 0\<rparr>)))))"

text \<open>Lines 265-291, the body of the inner \<^verbatim>\<open>try\<close>: the row is appended by \<^verbatim>\<open>pd.concat\<close>.\<close>

definition fileBody ::
  "'r selection_lib \<Rightarrow> string \<Rightarrow> string \<Rightarrow> nat \<Rightarrow> nat \<times> string \<Rightarrow> selection_state stmt" where
  "fileBody lib networkID stationID st jf s =
     (case dfRadial lib networkID stationID st (fst jf) (snd jf) of
        Inl e \<Rightarrow> (Inl e, s)
      | Inr row \<Rightarrow>
          (Inr (), s\<lparr>radialsToBeProcessed := radialsToBeProcessed s @ [row]\<rparr>))"

text \<open>Lines 254-260: the wildcard the manufacturer selects, if any.\<close>

definition setFileTypeWildcard :: "string \<Rightarrow> selection_state \<Rightarrow> selection_state" where
  "setFileTypeWildcard manuf s =
     (if contains ''codar'' manuf then s\<lparr>fileTypeWildcard := Some ''**/*.ruv''\<rparr>
      else if contains ''wera'' manuf then s\<lparr>fileTypeWildcard := Some ''**/*.crad_ascii''\<rparr>
      else if contains ''lera'' manuf then s\<lparr>fileTypeWildcard := Some ''**/*.crad_ascii''\<rparr>
      else s)"

text \<open>
  Lines 241-294, the body of the outer \<^verbatim>\<open>try\<close> for the station at position \<open>st\<close>. The two
  \<^verbatim>\<open>print\<close> calls write to the standard output, which is not part of the state.
\<close>

definition stationBody ::
  "'r selection_lib \<Rightarrow> string \<Rightarrow> station_row list \<Rightarrow> nat \<Rightarrow> selection_state stmt" where
  "stationBody lib networkID stationData st s =
     (case iloc stationData st of
        Inl e \<Rightarrow> (Inl e, s)
      | Inr row \<Rightarrow>
     (let stationID = station_id row
      in case radial_input_folder_path row of
        None \<Rightarrow> (Inl (AttributeError ''strip''), s)
      | Some path \<Rightarrow>
     (let inputFolder = strip path
      in if inputFolder = [] then (Inr (), s)
         else if \<not> isdir lib inputFolder then (Inr (), s)
         else
     (case manufacturer row of
        None \<Rightarrow> (Inl (AttributeError ''lower''), s)
      | Some m \<Rightarrow>
     (let s = setFileTypeWildcard (lower m) s
      in case fileTypeWildcard s of
        None \<Rightarrow> (Inl (UnboundLocalError ''fileTypeWildcard''), s)
      | Some wildcard \<Rightarrow>
     (case lib_call (glob lib (join lib inputFolder wildcard)) of
        Inl e \<Rightarrow> (Inl e, s)
      | Inr inputFiles \<Rightarrow>
          forEach (\<lambda>jf. tryExcept (fileBody lib networkID stationID st jf) (\<lambda>s. s\<lparr>sRerr := True\<rparr>))
            (enumerate 0 inputFiles) s))))))"

text \<open>The function: the loop over the positions of \<^verbatim>\<open>stationData\<close>, then \<^verbatim>\<open>return\<close>.\<close>

definition selectRadials ::
  "'r selection_lib \<Rightarrow> string \<Rightarrow> station_row list \<Rightarrow> error + selected_row list" where
  "selectRadials lib networkID stationData =
     (let s = \<lparr>radialsToBeProcessed = [], fileTypeWildcard = None, sRerr = False\<rparr>
      in case forEach
                (\<lambda>st. tryExcept (stationBody lib networkID stationData st) (\<lambda>s. s\<lparr>sRerr := True\<rparr>))
                [0..<length stationData] s of
           (Inl e, s) \<Rightarrow> Inl e
         | (Inr u, s) \<Rightarrow> Inr (radialsToBeProcessed s))"

subsection \<open>The rows \<^verbatim>\<open>selectRadials\<close> is expected to return\<close>

text \<open>
  The rows of the files of one station that are processed without an exception, in the
  order of the listing.
\<close>

definition rowsOfFiles ::
  "'r selection_lib \<Rightarrow> string \<Rightarrow> string \<Rightarrow> nat \<Rightarrow> (nat \<times> string) list \<Rightarrow> selected_row list" where
  "rowsOfFiles lib networkID stationID st jfs =
     List.map_filter
       (\<lambda>jf. case dfRadial lib networkID stationID st (fst jf) (snd jf) of
                Inl e \<Rightarrow> None
              | Inr row \<Rightarrow> Some row)
       jfs"

text \<open>
  The files a station's iteration lists, or the exception that ends the iteration before any
  file is read, and the wildcard in force afterwards. A station with no folder, or with a
  folder that does not exist, lists nothing.
\<close>

definition wildcardOf :: "string \<Rightarrow> string option \<Rightarrow> string option" where
  "wildcardOf manuf wc =
     (if contains ''codar'' manuf then Some ''**/*.ruv''
      else if contains ''wera'' manuf \<or> contains ''lera'' manuf then Some ''**/*.crad_ascii''
      else wc)"

definition stationFiles ::
  "'r selection_lib \<Rightarrow> station_row \<Rightarrow> string option \<Rightarrow> (error + string list) \<times> string option" where
  "stationFiles lib row wc =
     (case radial_input_folder_path row of
        None \<Rightarrow> (Inl (AttributeError ''strip''), wc)
      | Some path \<Rightarrow>
          if strip path = [] \<or> \<not> isdir lib (strip path) then (Inr [], wc)
          else
            (case manufacturer row of
               None \<Rightarrow> (Inl (AttributeError ''lower''), wc)
             | Some m \<Rightarrow>
                 (case wildcardOf (lower m) wc of
                    None \<Rightarrow> (Inl (UnboundLocalError ''fileTypeWildcard''), None)
                  | Some wildcard \<Rightarrow>
                      (lib_call (glob lib (join lib (strip path) wildcard)), Some wildcard))))"

text \<open>
  The rows over the stations at the positions \<open>sts\<close>: a station whose iteration raises
  contributes nothing, every other station the rows of its successfully processed files.
\<close>

fun successfulRows ::
  "'r selection_lib \<Rightarrow> string \<Rightarrow> station_row list \<Rightarrow> string option \<Rightarrow> nat list \<Rightarrow> selected_row list" where
  "successfulRows lib networkID stationData wc [] = []"
| "successfulRows lib networkID stationData wc (st # sts) =
     (case stationFiles lib (stationData ! st) wc of
        (Inl e, wc') \<Rightarrow> successfulRows lib networkID stationData wc' sts
      | (Inr inputFiles, wc') \<Rightarrow>
          rowsOfFiles lib networkID (station_id (stationData ! st)) st (enumerate 0 inputFiles)
          @ successfulRows lib networkID stationData wc' sts)"


subsection \<open>A concrete file system and concrete stations\<close>

text \<open>
  Three stations: the first with three files, one of them unreadable; the second with no
  folder path; the third with one file. Every file has 2048 bytes.
\<close>

definition demo_selection_lib :: "string selection_lib" where
  "demo_selection_lib = \<lparr>
     isdir = (\<lambda>p. p \<noteq> ''/data/gone''),
     join = (\<lambda>a b. a @ ''/'' @ b),
     glob = (\<lambda>pattern.
        if pattern = ''/data/VIAR/**/*.ruv''
        then Inr [''/data/VIAR/a.ruv'', ''/data/VIAR/broken.ruv'', ''/data/VIAR/c.ruv'']
        else if pattern = ''/data/TINO/**/*.crad_ascii'' then Inr [''/data/TINO/d.crad_ascii'']
        else Inr []),
     dirname = (\<lambda>f. rev (drop 1 (dropWhile (\<lambda>c. c \<noteq> CHR ''/'') (rev f)))),
     basename = (\<lambda>f. rev (takeWhile (\<lambda>c. c \<noteq> CHR ''/'') (rev f))),
     splitext = (\<lambda>f. (rev (drop 1 (dropWhile (\<lambda>c. c \<noteq> CHR ''.'') (rev f))),
                      CHR ''.'' # rev (takeWhile (\<lambda>c. c \<noteq> CHR ''.'') (rev f)))),
     Radial_init = (\<lambda>f. if f = ''/data/VIAR/broken.ruv'' then Inl ''unreadable radial file'' else Inr f),
     time_strftime = (\<lambda>r fmt. Inr (if fmt = ''%Y %m %d %H %M %S'' then ''2024 01 01 00 00 00''
                                    else ''2024-01-01 00:00:00'')),
     getsize = (\<lambda>f. Inr 2048),
     utcnow = (\<lambda>st j. ''2024-01-01 01:00:00'')\<rparr>"

definition demo_station :: "string \<Rightarrow> string option \<Rightarrow> string option \<Rightarrow> station_row" where
  "demo_station sid folder manuf =
     \<lparr>network_id = ''HFR-TirLig'', station_id = sid,
      radial_input_folder_path = folder, manufacturer = manuf\<rparr>"

definition demo_stations :: "station_row list" where
  "demo_stations =
     [demo_station ''VIAR'' (Some '' /data/VIAR '') (Some ''CODAR SeaSonde''),
      demo_station ''PCOR'' None (Some ''CODAR SeaSonde''),
      demo_station ''TINO'' (Some ''/data/TINO'') (Some ''Helzel WERA'')]"

definition demo_selected :: "string \<Rightarrow> string \<Rightarrow> string \<Rightarrow> string \<Rightarrow> selected_row" where
  "demo_selected sid folder name ext =
     \<lparr>network_id = ''HFR-TirLig'', station_id = sid,
      filename = name, filepath = folder,
      timestamp = ''2024 01 01 00 00 00'', datetime = ''2024-01-01 00:00:00'',
      reception_date = ''2024-01-01 01:00:00'', filesize = 2, extension = ext,
      NRT_processed_flag = 0, NRT_processed_flag_integrated_network = 0,
      NRT_combined_flag = 0\<rparr>"


section \<open>Properties of \<^verbatim>\<open>performRadialCombination\<close>\<close>

text \<open>The scaling step as it behaves: the unbound name makes it raise on more than one extension.\<close>

lemma scaleWeraRadials_raises:
  "scaleWeraRadials exts combRad =
     (if length exts > 1 then Inl (NameError ''combRadcombRad'') else Inr combRad)"
  by (simp add: scaleWeraRadials_def frameNamed_def)

text \<open>
  What the loop of the step computes when its iterable is a frame: on a CODAR row followed by a
  WERA row, the WERA samples times 100 and times 10000, the CODAR row as it was.
\<close>

lemma scaling_loop_on_mixed_frame:
  "fold scaleRow
     (filter (\<lambda>idx. idx < length [demo_row ''.ruv'' 0 0, demo_row ''.crad_ascii'' 0 0] \<and>
                   extension ([demo_row ''.ruv'' 0 0, demo_row ''.crad_ascii'' 0 0] ! idx) = ''.crad_ascii'')
        [0..<length [demo_row ''.ruv'' 0 0, demo_row ''.crad_ascii'' 0 0]])
     [demo_row ''.ruv'' 0 0, demo_row ''.crad_ascii'' 0 0]
   = [demo_row ''.ruv'' 0 0,
      (demo_row ''.crad_ascii'' 0 0)\<lparr>Radial := \<lparr>VELO = [200], HCSS = [30000]\<rparr>\<rparr>]"
  by (simp add: demo_row_def scaleRow_def scaleRadial_def upt_rec)

lemmas demo_defs = demo_lib_def demo_row_def demo_net_def
lemmas prc_defs = performRadialCombination_def combineBody_def createGrid_def scaleWeraRadials_raises
  setTotalFlags_def notYetCombined_def iloc0_def lib_call_def


subsection \<open>Auxiliary facts\<close>

lemma set_unique: "set (unique xs) = set xs"
proof (induction xs rule: unique.induct)
  case 1 show ?case by simp
next
  case (2 x xs) then show ?case by auto
qed

lemma distinct_unique: "distinct (unique xs)"
proof (induction xs rule: unique.induct)
  case 1 show ?case by simp
next
  case (2 x xs) then show ?case by (simp add: set_unique)
qed

lemma length_unique_card: "length (unique xs) = card (set xs)"
  using distinct_card [OF distinct_unique, of xs] by (simp add: set_unique)

lemma unique_uniform:
  assumes "xs \<noteq> []" and "\<forall>x\<in>set xs. x = e"
  shows "unique xs = [e]"
proof -
  have "set xs = {e}" using assms by (cases xs) auto
  then have "set (unique xs) = {e}" and "length (unique xs) = 1"
    by (simp_all add: set_unique length_unique_card)
  then show ?thesis by (cases "unique xs") auto
qed


lemma unique_mixed:
  assumes "a \<in> set xs" "b \<in> set xs" "a \<noteq> b"
  shows "length (unique xs) > 1"
proof -
  have "{a, b} \<subseteq> set xs" using assms by simp
  then have "card {a, b} \<le> card (set xs)" by (intro card_mono) simp_all
  then show ?thesis using assms by (simp add: length_unique_card)
qed


lemma combineBody_not_T: "fst (combineBody lib combRad net) \<noteq> Inl (UnboundLocalError ''T'')"
  by (auto simp add: combineBody_def scaleWeraRadials_raises createGrid_def lib_call_def iloc0_def Let_def split: sum.splits option.splits prod.splits if_splits list.splits)

lemma performRadialCombination_Inr:
  assumes "performRadialCombination lib combRad networkData = (Inr T, cr)"
  shows "\<exists>net. iloc0 networkData = Inr net \<and> radial_combination net = 1 \<and>
           notYetCombined combRad net \<and> combineBody lib combRad net = (Inr T, cr)"
  using assms
  by (auto simp add: performRadialCombination_def split: sum.splits if_splits)

lemma combineBody_Inr:
  assumes "combineBody lib combRad net = (Inr T, cr)"
  shows "\<exists>grid row0 timeStamp T0 warn T1.
           length (unique (map extension combRad)) = 1 \<and>
           createGrid lib (unique (map extension combRad))
             (geospatial_lon_min net) (geospatial_lon_max net)
             (geospatial_lat_min net) (geospatial_lat_max net)
             (grid_resolution net * 1000) = Inr (Some grid) \<and>
           iloc0 combRad = Inr row0 \<and>
           strptime lib (datetime row0) = Inr timeStamp \<and>
           combineRadials lib combRad grid (combination_search_radius net * 1000)
             (grid_resolution net * 1000) timeStamp = Inr (T0, warn) \<and>
           addBoundingBoxMetadata lib T0
             (geospatial_lon_min net) (geospatial_lon_max net)
             (geospatial_lat_min net) (geospatial_lat_max net)
             (grid_resolution net * 1000 / 1000) = Inr T1 \<and>
           T = setTotalFlags (unique (map extension combRad)) T1 \<and> cr = combRad"
proof -
  have len: "length (unique (map extension combRad)) = 1"
    if "\<not> 1 < length (unique (map extension combRad))" and "iloc0 combRad = Inr r" for r
  proof -
    from that(2) have "combRad \<noteq> []" by (auto simp add: iloc0_def)
    then have "unique (map extension combRad) \<noteq> []" by (cases combRad) simp_all
    then show ?thesis using that(1) by (cases "unique (map extension combRad)") simp_all
  qed
  show ?thesis
    using assms len
    by (auto simp add: combineBody_def scaleWeraRadials_raises lib_call_def Let_def
          split: sum.splits option.splits prod.splits if_splits)
qed

lemma createGrid_Some_single:
  assumes "createGrid lib exts lonMin lonMax latMin latMax res = Inr (Some grid)"
      and "length exts = 1"
  shows "(exts = [''.ruv''] \<and> createLonLatGridFromBB lib lonMin lonMax latMin latMax res = Inr grid) \<or>
         (exts = [''.crad_ascii''] \<and> createLonLatGridFromBBwera lib lonMin lonMax latMin latMax res = Inr grid)"
proof -
  from assms(2) obtain e where e: "exts = [e]" by (cases exts) auto
  show ?thesis using assms(1) unfolding e
    by (auto simp add: createGrid_def lib_call_def split: if_splits sum.splits)
qed

subsection \<open>The claims\<close>

text \<open>
  Claim C1. With the combination enabled, the function takes the combination branch exactly
  when the applicable flag is unset (0) on at least one candidate row: the flag
  \<open>NRT_combined_flag\<close> for every network other than \<^verbatim>\<open>HFR-WesternItaly\<close>, the flag
  \<open>NRT_processed_flag_integrated_network\<close> for \<^verbatim>\<open>HFR-WesternItaly\<close>, whatever the combined
  flag is there. Skipping the branch is visible in the result: the function then reaches
  \<^verbatim>\<open>return T\<close> with \<^verbatim>\<open>T\<close> unbound, and nothing inside the branch raises that exception.
\<close>

theorem eligibility_rule:
  assumes "iloc0 networkData = Inr net" and "radial_combination net = 1"
  shows "fst (performRadialCombination lib combRad networkData) \<noteq> Inl (UnboundLocalError ''T'') \<longleftrightarrow>
           (if network_id net = ''HFR-WesternItaly''
            then \<exists>r\<in>set combRad. NRT_processed_flag_integrated_network r = 0
            else \<exists>r\<in>set combRad. NRT_combined_flag r = 0)"
proof -
  have rule: "notYetCombined combRad net \<longleftrightarrow>
           (if network_id net = ''HFR-WesternItaly''
            then \<exists>r\<in>set combRad. NRT_processed_flag_integrated_network r = 0
            else \<exists>r\<in>set combRad. NRT_combined_flag r = 0)"
    by (auto simp add: notYetCombined_def image_iff)
  show ?thesis
  proof (cases "notYetCombined combRad net")
    case True
    then have "performRadialCombination lib combRad networkData = combineBody lib combRad net"
      using assms by (simp add: performRadialCombination_def)
    then show ?thesis using True rule combineBody_not_T [of lib combRad net] by simp
  next
    case False
    then have "performRadialCombination lib combRad networkData = (Inl (UnboundLocalError ''T''), combRad)"
      using assms by (simp add: performRadialCombination_def)
    then show ?thesis using False rule by simp
  qed
qed

theorem eligibility_rule_witness:
  "iloc0 [demo_net ''HFR-WesternItaly'' 1] = Inr (demo_net ''HFR-WesternItaly'' 1)
   \<and> radial_combination (demo_net ''HFR-WesternItaly'' 1) = 1
   \<and> NRT_combined_flag (demo_row ''.ruv'' 0 1) = 1
   \<and> NRT_processed_flag_integrated_network (demo_row ''.ruv'' 0 1) = 0
   \<and> fst (performRadialCombination demo_lib [demo_row ''.ruv'' 0 1] [demo_net ''HFR-WesternItaly'' 1])
       \<noteq> Inl (UnboundLocalError ''T'')"
proof -
  have a: "iloc0 [demo_net ''HFR-WesternItaly'' 1] = Inr (demo_net ''HFR-WesternItaly'' 1)"
    by (simp add: iloc0_def)
  have b: "radial_combination (demo_net ''HFR-WesternItaly'' 1) = 1"
    by (simp add: demo_net_def)
  show ?thesis
    using eligibility_rule [OF a b, of demo_lib "[demo_row ''.ruv'' 0 1]"] a
    by (simp add: demo_net_def demo_row_def)
qed

text \<open>
  Claim C2 (the code departs from it). On a frame with both extensions the function does not
  rescale the \<^verbatim>\<open>.crad_ascii\<close> samples: the scaling loop iterates over the unbound name
  \<^verbatim>\<open>combRadcombRad\<close>, so the call ends with NameError and \<open>VELO\<close> and \<open>HCSS\<close> are as they
  were.
\<close>

theorem mixed_formats_raise_NameError:
  "performRadialCombination demo_lib
     [demo_row ''.ruv'' 0 0, demo_row ''.crad_ascii'' 0 0] [demo_net ''HFR-TirLig'' 1]
   = (Inl (NameError ''combRadcombRad''), [demo_row ''.ruv'' 0 0, demo_row ''.crad_ascii'' 0 0])
   \<and> VELO (Radial (demo_row ''.crad_ascii'' 0 0)) = [2]
   \<and> HCSS (Radial (demo_row ''.crad_ascii'' 0 0)) = [3]"
  by (simp add: demo_defs prc_defs)

text \<open>The same on every frame with two different extensions.\<close>

lemma mixed_formats_never_scaled:
  assumes "r \<in> set combRad" "r' \<in> set combRad" "extension r \<noteq> extension r'"
  shows "scaleWeraRadials (unique (map extension combRad)) combRad = Inl (NameError ''combRadcombRad'')"
proof -
  have "1 < length (unique (map extension combRad))"
    using assms by (intro unique_mixed [of "extension r" _ "extension r'"]) simp_all
  then show ?thesis by (simp add: scaleWeraRadials_raises)
qed

text \<open>
  Claim C3 (the code departs from it). When no combination is performed, because the network
  has the combination disabled or because no candidate is eligible, the function does not
  return an empty frame: it raises UnboundLocalError at \<^verbatim>\<open>return T\<close>.
\<close>

theorem no_combination_raises_UnboundLocalError:
  "performRadialCombination demo_lib [demo_row ''.ruv'' 0 0] [demo_net ''HFR-TirLig'' 0]
     = (Inl (UnboundLocalError ''T''), [demo_row ''.ruv'' 0 0])
   \<and> performRadialCombination demo_lib [demo_row ''.ruv'' 1 1] [demo_net ''HFR-TirLig'' 1]
     = (Inl (UnboundLocalError ''T''), [demo_row ''.ruv'' 1 1])"
  by (simp add: demo_defs prc_defs)

text \<open>The same on every input with a network row and no combination to perform.\<close>

lemma no_combination_always_raises:
  assumes "iloc0 networkData = Inr net"
      and "radial_combination net \<noteq> 1 \<or> \<not> notYetCombined combRad net"
  shows "performRadialCombination lib combRad networkData = (Inl (UnboundLocalError ''T''), combRad)"
  using assms by (auto simp add: performRadialCombination_def)



text \<open>
  The attribute step alone, on more than one distinct extension, clears \<open>is_wera\<close>
  (lines 199-200).
\<close>

lemma setTotalFlags_mixed:
  assumes "1 < length exts"
  shows "is_combined (setTotalFlags exts T) \<and> \<not> is_wera (setTotalFlags exts T)"
  using assms by (simp add: setTotalFlags_def)



text \<open>
  Claim C6. Whenever the function returns a Total, the grid was built at the stored resolution
  times 1000, \<^verbatim>\<open>combineRadials\<close> was called with the stored search radius times 1000 and
  the stored resolution times 1000, and \<^verbatim>\<open>addBoundingBoxMetadata\<close> was called with the
  bounding box and that resolution in metres divided by 1000; the data of the returned Total
  is what \<^verbatim>\<open>addBoundingBoxMetadata\<close> returned.
\<close>

theorem unit_conversion:
  assumes "performRadialCombination lib combRad networkData = (Inr T, cr)"
  shows "\<exists>net grid timeStamp T0 warn T1.
           iloc0 networkData = Inr net \<and>
           (createLonLatGridFromBB lib (geospatial_lon_min net) (geospatial_lon_max net)
              (geospatial_lat_min net) (geospatial_lat_max net) (grid_resolution net * 1000) = Inr grid
            \<or> createLonLatGridFromBBwera lib (geospatial_lon_min net) (geospatial_lon_max net)
              (geospatial_lat_min net) (geospatial_lat_max net) (grid_resolution net * 1000) = Inr grid) \<and>
           combineRadials lib combRad grid (combination_search_radius net * 1000)
             (grid_resolution net * 1000) timeStamp = Inr (T0, warn) \<and>
           addBoundingBoxMetadata lib T0 (geospatial_lon_min net) (geospatial_lon_max net)
             (geospatial_lat_min net) (geospatial_lat_max net) (grid_resolution net * 1000 / 1000) = Inr T1 \<and>
           payload T = payload T1"
proof -
  from performRadialCombination_Inr [OF assms] obtain net
    where net: "iloc0 networkData = Inr net"
      and body: "combineBody lib combRad net = (Inr T, cr)" by blast
  from combineBody_Inr [OF body] obtain grid timeStamp T0 warn T1
    where len: "length (unique (map extension combRad)) = 1"
      and grid: "createGrid lib (unique (map extension combRad))
             (geospatial_lon_min net) (geospatial_lon_max net)
             (geospatial_lat_min net) (geospatial_lat_max net)
             (grid_resolution net * 1000) = Inr (Some grid)"
      and comb: "combineRadials lib combRad grid (combination_search_radius net * 1000)
             (grid_resolution net * 1000) timeStamp = Inr (T0, warn)"
      and meta: "addBoundingBoxMetadata lib T0 (geospatial_lon_min net) (geospatial_lon_max net)
             (geospatial_lat_min net) (geospatial_lat_max net) (grid_resolution net * 1000 / 1000) = Inr T1"
      and T: "T = setTotalFlags (unique (map extension combRad)) T1"
    by blast
  have pay: "payload T = payload T1"
    unfolding T by (simp add: setTotalFlags_def Let_def)
  from createGrid_Some_single [OF grid len] net comb meta pay show ?thesis by blast
qed

theorem unit_conversion_witness:
  "performRadialCombination demo_lib [demo_row ''.ruv'' 0 0] [demo_net ''HFR-TirLig'' 1]
     = (Inr \<lparr>payload = ((''BB'', [8, 10, 43, 44, 2000]), [6000, 2000], [8, 10, 43, 44, 2]),
             is_combined = True, is_wera = False\<rparr>, [demo_row ''.ruv'' 0 0])
   \<and> grid_resolution (demo_net ''HFR-TirLig'' 1) = 2
   \<and> combination_search_radius (demo_net ''HFR-TirLig'' 1) = 6
   \<and> (\<exists>net grid timeStamp T0 warn T1.
           iloc0 [demo_net ''HFR-TirLig'' 1] = Inr net \<and>
           (createLonLatGridFromBB demo_lib (geospatial_lon_min net) (geospatial_lon_max net)
              (geospatial_lat_min net) (geospatial_lat_max net) (grid_resolution net * 1000) = Inr grid
            \<or> createLonLatGridFromBBwera demo_lib (geospatial_lon_min net) (geospatial_lon_max net)
              (geospatial_lat_min net) (geospatial_lat_max net) (grid_resolution net * 1000) = Inr grid) \<and>
           combineRadials demo_lib [demo_row ''.ruv'' 0 0] grid (combination_search_radius net * 1000)
             (grid_resolution net * 1000) timeStamp = Inr (T0, warn) \<and>
           addBoundingBoxMetadata demo_lib T0 (geospatial_lon_min net) (geospatial_lon_max net)
             (geospatial_lat_min net) (geospatial_lat_max net) (grid_resolution net * 1000 / 1000) = Inr T1 \<and>
           payload \<lparr>payload = ((''BB'', [8, 10, 43, 44, 2000::real]), [6000, 2000::real], [8, 10, 43, 44, 2::real]),
             is_combined = True, is_wera = False\<rparr> = payload T1)"
proof -
  have run: "performRadialCombination demo_lib [demo_row ''.ruv'' 0 0] [demo_net ''HFR-TirLig'' 1]
     = (Inr \<lparr>payload = ((''BB'', [8, 10, 43, 44, 2000]), [6000, 2000], [8, 10, 43, 44, 2]),
             is_combined = True, is_wera = False\<rparr>, [demo_row ''.ruv'' 0 0])"
    by (simp add: demo_defs prc_defs)
  have net: "grid_resolution (demo_net ''HFR-TirLig'' 1) = 2"
            "combination_search_radius (demo_net ''HFR-TirLig'' 1) = 6"
    by (simp_all add: demo_net_def)
  show ?thesis
    by (intro conjI) (rule run, rule net(1), rule net(2), rule unit_conversion [OF run])
qed




text \<open>
  Claim C8. When all rows share one extension the scaling step raises nothing and returns
  the frame unchanged, so no \<open>VELO\<close> or \<open>HCSS\<close> sample is rescaled.
\<close>

theorem uniform_formats_not_scaled:
  assumes "\<forall>r\<in>set combRad. extension r = e"
  shows "scaleWeraRadials (unique (map extension combRad)) combRad = Inr combRad"
proof (cases combRad)
  case Nil
  then show ?thesis by (simp add: scaleWeraRadials_raises)
next
  case (Cons r rs)
  then have "unique (map extension combRad) = [e]"
    using assms by (intro unique_uniform) simp_all
  then show ?thesis by (simp add: scaleWeraRadials_raises)
qed

theorem uniform_formats_not_scaled_witness:
  "map extension [demo_row ''.crad_ascii'' 0 0, demo_row ''.crad_ascii'' 0 1]
      = [''.crad_ascii'', ''.crad_ascii'']
   \<and> scaleWeraRadials (unique (map extension [demo_row ''.crad_ascii'' 0 0, demo_row ''.crad_ascii'' 0 1]))
        [demo_row ''.crad_ascii'' 0 0, demo_row ''.crad_ascii'' 0 1]
      = Inr [demo_row ''.crad_ascii'' 0 0, demo_row ''.crad_ascii'' 0 1]
   \<and> map (VELO \<circ> Radial) [demo_row ''.crad_ascii'' 0 0, demo_row ''.crad_ascii'' 0 1] = [[2], [2]]
   \<and> map (HCSS \<circ> Radial) [demo_row ''.crad_ascii'' 0 0, demo_row ''.crad_ascii'' 0 1] = [[3], [3]]"
proof -
  have h: "\<forall>r\<in>set [demo_row ''.crad_ascii'' 0 0, demo_row ''.crad_ascii'' 0 1]. extension r = ''.crad_ascii''"
    by (simp add: demo_row_def)
  from uniform_formats_not_scaled [OF h] h show ?thesis by (simp add: demo_row_def)
qed

section \<open>Properties of \<^verbatim>\<open>selectRadials\<close>\<close>

subsection \<open>The loops compute the expected rows\<close>

lemma fileStep:
  "tryExcept (fileBody lib networkID stationID st jf) (\<lambda>s. s\<lparr>sRerr := True\<rparr>) s = (r, s') \<Longrightarrow>
     r = Inr () \<and>
     radialsToBeProcessed s' = radialsToBeProcessed s @ rowsOfFiles lib networkID stationID st [jf] \<and>
     fileTypeWildcard s' = fileTypeWildcard s"
  by (auto simp add: tryExcept_def fileBody_def rowsOfFiles_def List.map_filter_simps
        split: sum.splits prod.splits)

lemma rowsOfFiles_Cons:
  "rowsOfFiles lib networkID stationID st (jf # jfs)
     = rowsOfFiles lib networkID stationID st [jf] @ rowsOfFiles lib networkID stationID st jfs"
  by (simp add: rowsOfFiles_def List.map_filter_simps split: option.splits)

lemma fileLoop:
  "forEach (\<lambda>jf. tryExcept (fileBody lib networkID stationID st jf) (\<lambda>s. s\<lparr>sRerr := True\<rparr>)) jfs s
     = (r, s') \<Longrightarrow>
   r = Inr () \<and>
   radialsToBeProcessed s' = radialsToBeProcessed s @ rowsOfFiles lib networkID stationID st jfs \<and>
   fileTypeWildcard s' = fileTypeWildcard s"
proof (induction jfs arbitrary: s)
  case Nil
  then show ?case by (simp add: rowsOfFiles_def List.map_filter_simps)
next
  case (Cons jf jfs)
  obtain r1 s1 where step:
    "tryExcept (fileBody lib networkID stationID st jf) (\<lambda>s. s\<lparr>sRerr := True\<rparr>) s = (r1, s1)"
    by (cases "tryExcept (fileBody lib networkID stationID st jf) (\<lambda>s. s\<lparr>sRerr := True\<rparr>) s")
  from fileStep [OF step] have r1: "r1 = Inr ()"
    and rows1: "radialsToBeProcessed s1 = radialsToBeProcessed s @ rowsOfFiles lib networkID stationID st [jf]"
    and wc1: "fileTypeWildcard s1 = fileTypeWildcard s"
    by simp_all
  from Cons.prems step r1 have rest:
    "forEach (\<lambda>jf. tryExcept (fileBody lib networkID stationID st jf) (\<lambda>s. s\<lparr>sRerr := True\<rparr>)) jfs s1
       = (r, s')"
    by simp
  from Cons.IH [OF rest] rows1 wc1 show ?case
    by (simp add: rowsOfFiles_Cons [of lib networkID stationID st jf jfs])
qed

lemma setFileTypeWildcard_wildcardOf:
  "fileTypeWildcard (setFileTypeWildcard manuf s) = wildcardOf manuf (fileTypeWildcard s)"
  "radialsToBeProcessed (setFileTypeWildcard manuf s) = radialsToBeProcessed s"
  by (simp_all add: setFileTypeWildcard_def wildcardOf_def)

lemma stationStep:
  assumes "st < length stationData"
      and "tryExcept (stationBody lib networkID stationData st) (\<lambda>s. s\<lparr>sRerr := True\<rparr>) s = (r, s')"
  shows "r = Inr () \<and>
         radialsToBeProcessed s' = radialsToBeProcessed s
           @ successfulRows lib networkID stationData (fileTypeWildcard s) [st] \<and>
         fileTypeWildcard s' = snd (stationFiles lib (stationData ! st) (fileTypeWildcard s))"
proof -
  have r: "r = Inr ()"
    using assms(2) by (auto simp add: tryExcept_def split: sum.splits prod.splits)
  obtain rb sb where body: "stationBody lib networkID stationData st s = (rb, sb)"
    by (cases "stationBody lib networkID stationData st s")
  have s': "radialsToBeProcessed s' = radialsToBeProcessed sb" "fileTypeWildcard s' = fileTypeWildcard sb"
    using assms(2) body by (auto simp add: tryExcept_def split: sum.splits)
  have "radialsToBeProcessed sb = radialsToBeProcessed s
           @ successfulRows lib networkID stationData (fileTypeWildcard s) [st] \<and>
        fileTypeWildcard sb = snd (stationFiles lib (stationData ! st) (fileTypeWildcard s))"
    using body assms(1)
    by (auto simp add: stationBody_def iloc_def stationFiles_def Let_def
          setFileTypeWildcard_wildcardOf rowsOfFiles_def List.map_filter_simps lib_call_def
          split: option.splits sum.splits if_splits dest!: fileLoop)
  with r s' show ?thesis by simp
qed

lemma successfulRows_Cons:
  "successfulRows lib networkID stationData wc (st # sts)
     = successfulRows lib networkID stationData wc [st]
       @ successfulRows lib networkID stationData (snd (stationFiles lib (stationData ! st) wc)) sts"
  by (simp split: prod.splits sum.splits)

lemma stationLoop:
  assumes "\<forall>st\<in>set sts. st < length stationData"
      and "forEach (\<lambda>st. tryExcept (stationBody lib networkID stationData st) (\<lambda>s. s\<lparr>sRerr := True\<rparr>))
             sts s = (r, s')"
  shows "r = Inr () \<and>
         radialsToBeProcessed s' = radialsToBeProcessed s
           @ successfulRows lib networkID stationData (fileTypeWildcard s) sts"
  using assms
proof (induction sts arbitrary: s)
  case Nil
  then show ?case by simp
next
  case (Cons st sts)
  obtain r1 s1 where step:
    "tryExcept (stationBody lib networkID stationData st) (\<lambda>s. s\<lparr>sRerr := True\<rparr>) s = (r1, s1)"
    by (cases "tryExcept (stationBody lib networkID stationData st) (\<lambda>s. s\<lparr>sRerr := True\<rparr>) s")
  from Cons.prems(1) have st: "st < length stationData" and sts: "\<forall>st\<in>set sts. st < length stationData"
    by simp_all
  from stationStep [OF st step] have r1: "r1 = Inr ()"
    and rows1: "radialsToBeProcessed s1 = radialsToBeProcessed s
           @ successfulRows lib networkID stationData (fileTypeWildcard s) [st]"
    and wc1: "fileTypeWildcard s1 = snd (stationFiles lib (stationData ! st) (fileTypeWildcard s))"
    by simp_all
  from Cons.prems(2) step r1 have rest:
    "forEach (\<lambda>st. tryExcept (stationBody lib networkID stationData st) (\<lambda>s. s\<lparr>sRerr := True\<rparr>))
       sts s1 = (r, s')"
    by simp
  from Cons.IH [OF sts rest] rows1 wc1 show ?case
    by (simp only: successfulRows_Cons [of lib networkID stationData "fileTypeWildcard s" st sts]
          append_assoc simp_thms)
qed

lemma selectRadials_returns:
  "selectRadials lib networkID stationData
     = Inr (successfulRows lib networkID stationData None [0..<length stationData])"
proof -
  let ?s0 = "\<lparr>radialsToBeProcessed = [], fileTypeWildcard = None, sRerr = False\<rparr>"
  obtain r s' where loop:
    "forEach (\<lambda>st. tryExcept (stationBody lib networkID stationData st) (\<lambda>s. s\<lparr>sRerr := True\<rparr>))
       [0..<length stationData] ?s0 = (r, s')"
    by (cases "forEach (\<lambda>st. tryExcept (stationBody lib networkID stationData st) (\<lambda>s. s\<lparr>sRerr := True\<rparr>))
       [0..<length stationData] ?s0")
  have "\<forall>st\<in>set [0..<length stationData]. st < length stationData" by simp
  from stationLoop [OF this loop] loop show ?thesis
    by (simp add: selectRadials_def)
qed

lemma dfRadial_flags:
  assumes "dfRadial lib networkID stationID st j inputFile = Inr row"
  shows "NRT_processed_flag row = 0 \<and> NRT_processed_flag_integrated_network row = 0 \<and>
         NRT_combined_flag row = 0"
  using assms by (auto simp add: dfRadial_def Let_def split: sum.splits)

lemma rowsOfFiles_flags:
  assumes "row \<in> set (rowsOfFiles lib networkID stationID st jfs)"
  shows "NRT_processed_flag row = 0 \<and> NRT_processed_flag_integrated_network row = 0 \<and>
         NRT_combined_flag row = 0"
proof -
  from assms obtain jf where "dfRadial lib networkID stationID st (fst jf) (snd jf) = Inr row"
    by (auto simp add: rowsOfFiles_def List.map_filter_def split: sum.splits)
  then show ?thesis by (rule dfRadial_flags)
qed

lemma successfulRows_flags:
  assumes "row \<in> set (successfulRows lib networkID stationData wc sts)"
  shows "NRT_processed_flag row = 0 \<and> NRT_processed_flag_integrated_network row = 0 \<and>
         NRT_combined_flag row = 0"
  using assms
proof (induction sts arbitrary: wc)
  case Nil
  then show ?case by simp
next
  case (Cons st sts)
  obtain res wc' where files: "stationFiles lib (stationData ! st) wc = (res, wc')"
    by (cases "stationFiles lib (stationData ! st) wc")
  show ?case
  proof (cases res)
    case (Inl e)
    with files Cons.prems
    have "row \<in> set (successfulRows lib networkID stationData wc' sts)" by simp
    then show ?thesis by (rule Cons.IH)
  next
    case (Inr inputFiles)
    with files Cons.prems
    have "row \<in> set (rowsOfFiles lib networkID (station_id (stationData ! st)) st
                       (enumerate 0 inputFiles))
          \<or> row \<in> set (successfulRows lib networkID stationData wc' sts)" by simp
    then show ?thesis using rowsOfFiles_flags Cons.IH by blast
  qed
qed

lemma demo_run:
  "selectRadials demo_selection_lib ''HFR-TirLig'' demo_stations
     = Inr [demo_selected ''VIAR'' ''/data/VIAR'' ''a.ruv'' ''.ruv'',
            demo_selected ''VIAR'' ''/data/VIAR'' ''c.ruv'' ''.ruv'',
            demo_selected ''TINO'' ''/data/TINO'' ''d.crad_ascii'' ''.crad_ascii'']"
  by (simp add: selectRadials_def demo_stations_def demo_station_def demo_selected_def
        demo_selection_lib_def stationBody_def tryExcept_def iloc_def strip_def isspace_def
        lower_def lower_char_def setFileTypeWildcard_def fileBody_def dfRadial_def lib_call_def
        Let_def enumerate_eq_zip)


lemma demo_successfulRows:
  "successfulRows demo_selection_lib ''HFR-TirLig'' demo_stations None [0..<length demo_stations]
     = [demo_selected ''VIAR'' ''/data/VIAR'' ''a.ruv'' ''.ruv'',
        demo_selected ''VIAR'' ''/data/VIAR'' ''c.ruv'' ''.ruv'',
        demo_selected ''TINO'' ''/data/TINO'' ''d.crad_ascii'' ''.crad_ascii'']"
  by (simp add: demo_stations_def demo_station_def demo_selected_def demo_selection_lib_def
        stationFiles_def wildcardOf_def rowsOfFiles_def strip_def isspace_def
        lower_def lower_char_def dfRadial_def lib_call_def Let_def enumerate_eq_zip)


subsection \<open>The claims on \<^verbatim>\<open>selectRadials\<close>\<close>

text \<open>
  Claim C9. Every row of the frame \<^verbatim>\<open>selectRadials\<close> returns has the three flags
  \<open>NRT_processed_flag\<close>, \<open>NRT_processed_flag_integrated_network\<close> and \<open>NRT_combined_flag\<close>
  at 0.
\<close>

theorem selected_rows_pending:
  assumes "selectRadials lib networkID stationData = Inr rows"
  shows "\<forall>row\<in>set rows.
           NRT_processed_flag row = 0 \<and> NRT_processed_flag_integrated_network row = 0 \<and>
           NRT_combined_flag row = 0"
proof
  fix row assume "row \<in> set rows"
  with assms selectRadials_returns [of lib networkID stationData]
  have "row \<in> set (successfulRows lib networkID stationData None [0..<length stationData])" by simp
  then show "NRT_processed_flag row = 0 \<and> NRT_processed_flag_integrated_network row = 0 \<and>
           NRT_combined_flag row = 0"
    by (rule successfulRows_flags)
qed

theorem selected_rows_pending_witness:
  "selectRadials demo_selection_lib ''HFR-TirLig'' demo_stations
     = Inr [demo_selected ''VIAR'' ''/data/VIAR'' ''a.ruv'' ''.ruv'',
            demo_selected ''VIAR'' ''/data/VIAR'' ''c.ruv'' ''.ruv'',
            demo_selected ''TINO'' ''/data/TINO'' ''d.crad_ascii'' ''.crad_ascii'']
   \<and> list_all
        (\<lambda>row. NRT_processed_flag row = 0 \<and> NRT_processed_flag_integrated_network row = 0 \<and>
               NRT_combined_flag row = 0)
        [demo_selected ''VIAR'' ''/data/VIAR'' ''a.ruv'' ''.ruv'',
         demo_selected ''VIAR'' ''/data/VIAR'' ''c.ruv'' ''.ruv'',
         demo_selected ''TINO'' ''/data/TINO'' ''d.crad_ascii'' ''.crad_ascii'']"
proof
  show "selectRadials demo_selection_lib ''HFR-TirLig'' demo_stations
     = Inr [demo_selected ''VIAR'' ''/data/VIAR'' ''a.ruv'' ''.ruv'',
            demo_selected ''VIAR'' ''/data/VIAR'' ''c.ruv'' ''.ruv'',
            demo_selected ''TINO'' ''/data/TINO'' ''d.crad_ascii'' ''.crad_ascii'']"
    by (rule demo_run)
next
  show "list_all
        (\<lambda>row. NRT_processed_flag row = 0 \<and> NRT_processed_flag_integrated_network row = 0 \<and>
               NRT_combined_flag row = 0)
        [demo_selected ''VIAR'' ''/data/VIAR'' ''a.ruv'' ''.ruv'',
         demo_selected ''VIAR'' ''/data/VIAR'' ''c.ruv'' ''.ruv'',
         demo_selected ''TINO'' ''/data/TINO'' ''d.crad_ascii'' ''.crad_ascii'']"
    unfolding list_all_iff by (rule selected_rows_pending [OF demo_run])
qed

text \<open>
  Claim C10. \<^verbatim>\<open>selectRadials\<close> never raises: on every input it returns a frame, and the frame
  holds, in order, the row of every file that was processed without an exception; a file
  whose processing raises and a station whose iteration raises contribute nothing and take
  nothing away, before or after them.
\<close>

theorem selectRadials_never_raises:
  "selectRadials lib networkID stationData
     = Inr (successfulRows lib networkID stationData None [0..<length stationData])"
  by (rule selectRadials_returns)


theorem selectRadials_never_raises_witness:
  "fst (stationFiles demo_selection_lib (demo_stations ! 1) (Some ''**/*.ruv''))
     = Inl (AttributeError ''strip'')
   \<and> dfRadial demo_selection_lib ''HFR-TirLig'' ''VIAR'' 0 1 ''/data/VIAR/broken.ruv''
     = Inl (LibraryError ''unreadable radial file'')
   \<and> selectRadials demo_selection_lib ''HFR-TirLig'' demo_stations
     = Inr [demo_selected ''VIAR'' ''/data/VIAR'' ''a.ruv'' ''.ruv'',
            demo_selected ''VIAR'' ''/data/VIAR'' ''c.ruv'' ''.ruv'',
            demo_selected ''TINO'' ''/data/TINO'' ''d.crad_ascii'' ''.crad_ascii'']"
proof (intro conjI)
  show "fst (stationFiles demo_selection_lib (demo_stations ! 1) (Some ''**/*.ruv''))
     = Inl (AttributeError ''strip'')"
    by (simp add: demo_stations_def demo_station_def stationFiles_def)
next
  show "dfRadial demo_selection_lib ''HFR-TirLig'' ''VIAR'' 0 1 ''/data/VIAR/broken.ruv''
     = Inl (LibraryError ''unreadable radial file'')"
    by (simp add: dfRadial_def demo_selection_lib_def lib_call_def)
next
  show "selectRadials demo_selection_lib ''HFR-TirLig'' demo_stations
     = Inr [demo_selected ''VIAR'' ''/data/VIAR'' ''a.ruv'' ''.ruv'',
            demo_selected ''VIAR'' ''/data/VIAR'' ''c.ruv'' ''.ruv'',
            demo_selected ''TINO'' ''/data/TINO'' ''d.crad_ascii'' ''.crad_ascii'']"
    using selectRadials_never_raises [of demo_selection_lib "''HFR-TirLig''" demo_stations]
    by (simp only: demo_successfulRows)
qed

end
